theory Spec2Isabelle
  imports Complex_Main
begin

section \<open>Bytes, bits and lanes\<close>

text \<open>
  A byte is a \<^typ>\<open>char\<close>: the constructor \<^const>\<open>Char\<close> holds its eight bits, least
  significant first. A Python \<^verbatim>\<open>str\<close> is represented by its UTF-8 bytes, which is what
  \<^verbatim>\<open>keccak(text=signature)\<close> hashes; a Python \<^verbatim>\<open>bytes\<close> value is the list of its bytes.
\<close>

type_synonym byte = char

text \<open>A lane holds 64 bits, least significant first (the little-endian 64-bit word).\<close>

type_synonym lane = "bool list"

fun bits_of_byte :: "byte \<Rightarrow> bool list" where
  "bits_of_byte (Char b0 b1 b2 b3 b4 b5 b6 b7) = [b0, b1, b2, b3, b4, b5, b6, b7]"

fun byte_of_bits :: "bool list \<Rightarrow> byte" where
  "byte_of_bits [b0, b1, b2, b3, b4, b5, b6, b7] = Char b0 b1 b2 b3 b4 b5 b6 b7"
| "byte_of_bits _ = CHR 0x00"

text \<open>\<open>chunks k n xs\<close> cuts \<open>xs\<close> into \<open>k\<close> consecutive pieces of \<open>n\<close> elements.\<close>

fun chunks :: "nat \<Rightarrow> nat \<Rightarrow> 'a list \<Rightarrow> 'a list list" where
  "chunks 0 n xs = []"
| "chunks (Suc k) n xs = take n xs # chunks k n (drop n xs)"

definition lane_of_bytes :: "byte list \<Rightarrow> lane" where
  "lane_of_bytes bs = concat (map bits_of_byte bs)"

definition bytes_of_lane :: "lane \<Rightarrow> byte list" where
  "bytes_of_lane w = map byte_of_bits (chunks 8 8 w)"

definition zero_lane :: lane where
  "zero_lane = replicate 64 False"

section \<open>The Keccak-f[1600] permutation\<close>

text \<open>
  Modelled from the spec: the 256-bit hash primitive \<^verbatim>\<open>keccak\<close>, which
  \<^verbatim>\<open>src/error_hashes.py\<close> imports from \<^verbatim>\<open>eth_utils\<close> and the repository does not
  define. The spec names it as a standard primitive (Keccak-256) consumed by the engine. It
  is modelled as the Keccak sponge with rate 1088 bits (136 bytes), capacity 512 bits, the
  original Keccak padding (first padding byte \<open>0x01\<close>, last \<open>0x80\<close>) and 32 bytes of
  output. The state is five planes (\<open>y = 0..4\<close>) of five lanes (\<open>x = 0..4\<close>).
\<close>

datatype plane = Plane lane lane lane lane lane
datatype state = State plane plane plane plane plane

fun xor_lane :: "lane \<Rightarrow> lane \<Rightarrow> lane" where
  "xor_lane (a # as) (b # bs) = (a \<noteq> b) # xor_lane as bs"
| "xor_lane _ _ = []"

text \<open>\<open>chi_lane a b c\<close> is \<open>a XOR (NOT b AND c)\<close>, bit by bit.\<close>

fun chi_lane :: "lane \<Rightarrow> lane \<Rightarrow> lane \<Rightarrow> lane" where
  "chi_lane (a # as) (b # bs) (c # cs) = (a \<noteq> (\<not> b \<and> c)) # chi_lane as bs cs"
| "chi_lane _ _ _ = []"

text \<open>Rotation of a 64-bit lane to the left (towards the most significant bit) by \<open>n\<close>.\<close>

definition rotl :: "nat \<Rightarrow> lane \<Rightarrow> lane" where
  "rotl n w = drop (64 - n) w @ take (64 - n) w"

fun xor_plane :: "plane \<Rightarrow> plane \<Rightarrow> plane" where
  "xor_plane (Plane a0 a1 a2 a3 a4) (Plane b0 b1 b2 b3 b4) =
     Plane (xor_lane a0 b0) (xor_lane a1 b1) (xor_lane a2 b2) (xor_lane a3 b3) (xor_lane a4 b4)"

fun xor_state :: "state \<Rightarrow> state \<Rightarrow> state" where
  "xor_state (State p0 p1 p2 p3 p4) (State q0 q1 q2 q3 q4) =
     State (xor_plane p0 q0) (xor_plane p1 q1) (xor_plane p2 q2) (xor_plane p3 q3)
           (xor_plane p4 q4)"

text \<open>Theta: the column parities \<open>C\<close>, the mix \<open>D[x] = C[x-1] XOR rotl 1 C[x+1]\<close>.\<close>

fun theta_c :: "state \<Rightarrow> plane" where
  "theta_c (State p0 p1 p2 p3 p4) =
     xor_plane p0 (xor_plane p1 (xor_plane p2 (xor_plane p3 p4)))"

fun theta_d :: "plane \<Rightarrow> plane" where
  "theta_d (Plane c0 c1 c2 c3 c4) =
     Plane (xor_lane c4 (rotl 1 c1)) (xor_lane c0 (rotl 1 c2)) (xor_lane c1 (rotl 1 c3))
           (xor_lane c2 (rotl 1 c4)) (xor_lane c3 (rotl 1 c0))"

fun xor_planes :: "state \<Rightarrow> plane \<Rightarrow> state" where
  "xor_planes (State p0 p1 p2 p3 p4) d =
     State (xor_plane p0 d) (xor_plane p1 d) (xor_plane p2 d) (xor_plane p3 d) (xor_plane p4 d)"

definition theta :: "state \<Rightarrow> state" where
  "theta a = xor_planes a (theta_d (theta_c a))"

text \<open>
  Rho and pi in one step: \<open>B[y, 2x + 3y] = rotl r[x, y] A[x, y]\<close>. The lane \<open>axy\<close> is
  \<open>A[x, y]\<close>.
\<close>

fun rho_pi :: "state \<Rightarrow> state" where
  "rho_pi
     (State (Plane a00 a10 a20 a30 a40)
            (Plane a01 a11 a21 a31 a41)
            (Plane a02 a12 a22 a32 a42)
            (Plane a03 a13 a23 a33 a43)
            (Plane a04 a14 a24 a34 a44)) =
     State (Plane (rotl 0 a00) (rotl 44 a11) (rotl 43 a22) (rotl 21 a33) (rotl 14 a44))
           (Plane (rotl 28 a30) (rotl 20 a41) (rotl 3 a02) (rotl 45 a13) (rotl 61 a24))
           (Plane (rotl 1 a10) (rotl 6 a21) (rotl 25 a32) (rotl 8 a43) (rotl 18 a04))
           (Plane (rotl 27 a40) (rotl 36 a01) (rotl 10 a12) (rotl 15 a23) (rotl 56 a34))
           (Plane (rotl 62 a20) (rotl 55 a31) (rotl 39 a42) (rotl 41 a03) (rotl 2 a14))"

text \<open>Chi: \<open>A[x, y] = B[x, y] XOR (NOT B[x+1, y] AND B[x+2, y])\<close>.\<close>

fun chi_plane :: "plane \<Rightarrow> plane" where
  "chi_plane (Plane a0 a1 a2 a3 a4) =
     Plane (chi_lane a0 a1 a2) (chi_lane a1 a2 a3) (chi_lane a2 a3 a4)
           (chi_lane a3 a4 a0) (chi_lane a4 a0 a1)"

fun chi :: "state \<Rightarrow> state" where
  "chi (State p0 p1 p2 p3 p4) =
     State (chi_plane p0) (chi_plane p1) (chi_plane p2) (chi_plane p3) (chi_plane p4)"

text \<open>Iota: the round constant is added to the lane \<open>A[0, 0]\<close>.\<close>

fun iota :: "lane \<Rightarrow> state \<Rightarrow> state" where
  "iota rc (State (Plane a0 a1 a2 a3 a4) p1 p2 p3 p4) =
     State (Plane (xor_lane a0 rc) a1 a2 a3 a4) p1 p2 p3 p4"

definition keccak_round :: "state \<Rightarrow> lane \<Rightarrow> state" where
  "keccak_round a rc = iota rc (chi (rho_pi (theta a)))"

text \<open>
  The 24 round constants, each written as the eight bytes of its 64-bit value, most
  significant byte first (so the first line reads \<open>0x0000000000000001\<close>).
\<close>

definition round_constants :: "lane list" where
  "round_constants = map (\<lambda>bs. lane_of_bytes (rev bs))
   [[CHR 0x00, CHR 0x00, CHR 0x00, CHR 0x00, CHR 0x00, CHR 0x00, CHR 0x00, CHR 0x01],
    [CHR 0x00, CHR 0x00, CHR 0x00, CHR 0x00, CHR 0x00, CHR 0x00, CHR 0x80, CHR 0x82],
    [CHR 0x80, CHR 0x00, CHR 0x00, CHR 0x00, CHR 0x00, CHR 0x00, CHR 0x80, CHR 0x8a],
    [CHR 0x80, CHR 0x00, CHR 0x00, CHR 0x00, CHR 0x80, CHR 0x00, CHR 0x80, CHR 0x00],
    [CHR 0x00, CHR 0x00, CHR 0x00, CHR 0x00, CHR 0x00, CHR 0x00, CHR 0x80, CHR 0x8b],
    [CHR 0x00, CHR 0x00, CHR 0x00, CHR 0x00, CHR 0x80, CHR 0x00, CHR 0x00, CHR 0x01],
    [CHR 0x80, CHR 0x00, CHR 0x00, CHR 0x00, CHR 0x80, CHR 0x00, CHR 0x80, CHR 0x81],
    [CHR 0x80, CHR 0x00, CHR 0x00, CHR 0x00, CHR 0x00, CHR 0x00, CHR 0x80, CHR 0x09],
    [CHR 0x00, CHR 0x00, CHR 0x00, CHR 0x00, CHR 0x00, CHR 0x00, CHR 0x00, CHR 0x8a],
    [CHR 0x00, CHR 0x00, CHR 0x00, CHR 0x00, CHR 0x00, CHR 0x00, CHR 0x00, CHR 0x88],
    [CHR 0x00, CHR 0x00, CHR 0x00, CHR 0x00, CHR 0x80, CHR 0x00, CHR 0x80, CHR 0x09],
    [CHR 0x00, CHR 0x00, CHR 0x00, CHR 0x00, CHR 0x80, CHR 0x00, CHR 0x00, CHR 0x0a],
    [CHR 0x00, CHR 0x00, CHR 0x00, CHR 0x00, CHR 0x80, CHR 0x00, CHR 0x80, CHR 0x8b],
    [CHR 0x80, CHR 0x00, CHR 0x00, CHR 0x00, CHR 0x00, CHR 0x00, CHR 0x00, CHR 0x8b],
    [CHR 0x80, CHR 0x00, CHR 0x00, CHR 0x00, CHR 0x00, CHR 0x00, CHR 0x80, CHR 0x89],
    [CHR 0x80, CHR 0x00, CHR 0x00, CHR 0x00, CHR 0x00, CHR 0x00, CHR 0x80, CHR 0x03],
    [CHR 0x80, CHR 0x00, CHR 0x00, CHR 0x00, CHR 0x00, CHR 0x00, CHR 0x80, CHR 0x02],
    [CHR 0x80, CHR 0x00, CHR 0x00, CHR 0x00, CHR 0x00, CHR 0x00, CHR 0x00, CHR 0x80],
    [CHR 0x00, CHR 0x00, CHR 0x00, CHR 0x00, CHR 0x00, CHR 0x00, CHR 0x80, CHR 0x0a],
    [CHR 0x80, CHR 0x00, CHR 0x00, CHR 0x00, CHR 0x80, CHR 0x00, CHR 0x00, CHR 0x0a],
    [CHR 0x80, CHR 0x00, CHR 0x00, CHR 0x00, CHR 0x80, CHR 0x00, CHR 0x80, CHR 0x81],
    [CHR 0x80, CHR 0x00, CHR 0x00, CHR 0x00, CHR 0x00, CHR 0x00, CHR 0x80, CHR 0x80],
    [CHR 0x00, CHR 0x00, CHR 0x00, CHR 0x00, CHR 0x80, CHR 0x00, CHR 0x00, CHR 0x01],
    [CHR 0x80, CHR 0x00, CHR 0x00, CHR 0x00, CHR 0x80, CHR 0x00, CHR 0x80, CHR 0x08]]"

definition keccak_f :: "state \<Rightarrow> state" where
  "keccak_f a = foldl keccak_round a round_constants"

section \<open>The sponge: padding, absorbing, squeezing\<close>

definition rate :: nat where
  "rate = 136"

text \<open>
  The padding appended to a message of \<open>n\<close> bytes: between 1 and \<open>rate\<close> bytes, the
  first carrying the bit \<open>0x01\<close> and the last the bit \<open>0x80\<close> (one byte \<open>0x81\<close> when
  they coincide).
\<close>

definition padding :: "nat \<Rightarrow> byte list" where
  "padding n =
     (let q = rate - n mod rate in
      if q = 1 then [CHR 0x81]
      else CHR 0x01 # replicate (q - 2) (CHR 0x00) @ [CHR 0x80])"

definition pad :: "byte list \<Rightarrow> byte list" where
  "pad m = m @ padding (length m)"

definition zero_plane :: plane where
  "zero_plane = Plane zero_lane zero_lane zero_lane zero_lane zero_lane"

definition zero_state :: state where
  "zero_state = State zero_plane zero_plane zero_plane zero_plane zero_plane"

fun plane_of_lanes :: "lane list \<Rightarrow> plane" where
  "plane_of_lanes [a0, a1, a2, a3, a4] = Plane a0 a1 a2 a3 a4"
| "plane_of_lanes _ = zero_plane"

fun state_of_planes :: "plane list \<Rightarrow> state" where
  "state_of_planes [p0, p1, p2, p3, p4] = State p0 p1 p2 p3 p4"
| "state_of_planes _ = zero_state"

text \<open>
  A block of \<open>rate\<close> bytes is 17 lanes; they are added to the lanes \<open>x + 5 y < 17\<close> of the
  state, the other 8 lanes (the capacity) are left as they are.
\<close>

definition block_state :: "byte list \<Rightarrow> state" where
  "block_state blk =
     state_of_planes (map plane_of_lanes
       (chunks 5 5 (map lane_of_bytes (chunks 17 8 blk) @ replicate 8 zero_lane)))"

definition absorb_block :: "state \<Rightarrow> byte list \<Rightarrow> state" where
  "absorb_block a blk = keccak_f (xor_state a (block_state blk))"

definition absorb :: "byte list \<Rightarrow> state" where
  "absorb p = foldl absorb_block zero_state (chunks (length p div rate) rate p)"

text \<open>The first 32 bytes of the state: the lanes \<open>A[0, 0] .. A[3, 0]\<close>.\<close>

fun squeeze :: "state \<Rightarrow> byte list" where
  "squeeze (State (Plane a0 a1 a2 a3 a4) p1 p2 p3 p4) =
     bytes_of_lane a0 @ bytes_of_lane a1 @ bytes_of_lane a2 @ bytes_of_lane a3"

definition keccak256 :: "byte list \<Rightarrow> byte list" where
  "keccak256 m = squeeze (absorb (pad m))"

text \<open>
  A state is well formed when each of its 25 lanes has 64 bits. On well-formed states
  the operations above are the bitwise operations on 64-bit words, and the last equations
  of \<^const>\<open>byte_of_bits\<close>, \<^const>\<open>plane_of_lanes\<close> and \<^const>\<open>state_of_planes\<close> are never used.
\<close>

definition wf_lane :: "lane \<Rightarrow> bool" where
  "wf_lane w = (length w = 64)"

fun wf_plane :: "plane \<Rightarrow> bool" where
  "wf_plane (Plane a0 a1 a2 a3 a4) =
     (wf_lane a0 \<and> wf_lane a1 \<and> wf_lane a2 \<and> wf_lane a3 \<and> wf_lane a4)"

fun wf_state :: "state \<Rightarrow> bool" where
  "wf_state (State p0 p1 p2 p3 p4) =
     (wf_plane p0 \<and> wf_plane p1 \<and> wf_plane p2 \<and> wf_plane p3 \<and> wf_plane p4)"

section \<open>The script \<^verbatim>\<open>error_hashes.py\<close>\<close>

text \<open>The list of error signatures, in the order of the source.\<close>

definition error_signatures :: "string list" where
  "error_signatures =
   [''ZeroShares()'',
    ''RequestNotExecuted()'',
    ''RequestAlreadyClaimed()'',
    ''UnauthorizedClaimer(address,address)'',
    ''InchSwapInvailidTokens()'',
    ''InchSwapAmountExceedsBalance(uint256,uint256)'',
    ''InchInvalidReceiver()'',
    ''InchInvalidAmount(uint256,uint256)'',
    ''IncosistentParamsLength()'',
    ''CallerNotFactory()'',
    ''CallerNotStrategy()'',
    ''CallerNotKeeper()'',
    ''InvalidMarket()'',
    ''InvalidInitializationAssets()'',
    ''CallbackNotAllowed()'',
    ''ZeroAddress()'',
    ''ArrayLengthMissmatch()'',
    ''AlreadyPending()'',
    ''InvalidFeedPrice(address,int256)'',
    ''PriceFeedNotUpdated(address,uint256,uint256)'',
    ''PriceFeedNotConfigured()'',
    ''EmptyPriceFeedMultiplier(address)'',
    ''InsufficientExecutionFee(uint256,uint256)'',
    ''OracleInvalidPrice()'',
    ''InsufficientIdleBalanceForUtilize(uint256,uint256)'',
    ''InsufficientProdcutBalanceForDeutilize(uint256,uint256)'',
    ''UnsupportedSwapType()'',
    ''UnAuthorizedForwarder(address)'',
    ''NotPositivePnl()'',
    ''ActiveRequestIsNotClosed(bytes32)'',
    ''StatusNotIdle()'',
    ''ZeroPendingUtilization()'',
    ''ZeroAmountUtilization()'',
    ''CallerNotPositionManager()'',
    ''CallerNotAgent()'',
    ''InvalidRequestId(bytes32,bytes32)'',
    ''InvalidCallback()'',
    ''InvalidActiveRequestType()'',
    ''InsufficientCollateralBalance(uint256,uint256)'',
    ''NoActiveRequests()'',
    ''CallerNotOperator()'',
    ''InvalidStrategyStatus(uint8)'']"

text \<open>
  \<^verbatim>\<open>hash_bytes = keccak(text=signature)\<close>: the text is encoded as UTF-8 and hashed. A
  \<^typ>\<open>string\<close> already is the UTF-8 encoding of the signature, so every input of the
  model is a byte sequence; a Python \<^verbatim>\<open>str\<close> that has no UTF-8 encoding (one with an
  unpaired surrogate) has no counterpart here.
\<close>

definition keccak :: "string \<Rightarrow> byte list" where
  "keccak signature = keccak256 signature"

definition hash_bytes :: "string \<Rightarrow> byte list" where
  "hash_bytes signature = keccak signature"

text \<open>
  \<^verbatim>\<open>bytes.hex()\<close>: two digits per byte, the high nibble first, taken from
  \<^verbatim>\<open>0123456789abcdef\<close>.
\<close>

definition hexdigits :: string where
  "hexdigits = ''0123456789abcdef''"

definition hex_byte :: "byte \<Rightarrow> string" where
  "hex_byte c = [hexdigits ! (of_char c div 16), hexdigits ! (of_char c mod 16)]"

definition hex :: "byte list \<Rightarrow> string" where
  "hex bs = concat (map hex_byte bs)"

text \<open>The value of a hexadecimal digit is its position in \<^const>\<open>hexdigits\<close>.\<close>

definition hex_value :: "char \<Rightarrow> nat" where
  "hex_value c = length (takeWhile (\<lambda>x. x \<noteq> c) hexdigits)"

text \<open>
  \<^verbatim>\<open>hash_bytes[:4]\<close> is the selector as bytes (a Python slice never raises), and
  \<^verbatim>\<open>selector = hash_bytes[:4].hex()\<close> its printed form.
\<close>

definition derive_selector :: "string \<Rightarrow> byte list" where
  "derive_selector signature = take 4 (hash_bytes signature)"

definition selector :: "string \<Rightarrow> string" where
  "selector signature = hex (take 4 (hash_bytes signature))"

text \<open>\<^verbatim>\<open>print(f"{signature}: 0x{selector}")\<close>: the line written to the standard output.\<close>

definition print_line :: "string \<Rightarrow> string" where
  "print_line signature = signature @ '': 0x'' @ selector signature"

text \<open>
  The loop \<^verbatim>\<open>for signature in error_signatures\<close>, for any list of signatures. The state
  is the list of lines printed so far.
\<close>

fun report_loop :: "string list \<Rightarrow> string list \<Rightarrow> string list" where
  "report_loop out [] = out"
| "report_loop out (signature # rest) = report_loop (out @ [print_line signature]) rest"

definition report_all :: "string list \<Rightarrow> string list" where
  "report_all signatures = report_loop [] signatures"

definition main :: "string list" where
  "main = report_all error_signatures"

text \<open>
  The selector in the words of the specification: the first four bytes of the 256-bit hash
  of the declaration's bytes, in the order the hash emits them.
\<close>

definition spec_derive_selector :: "byte list \<Rightarrow> byte list" where
  "spec_derive_selector d =
     (let h = keccak256 d in [h ! 0, h ! 1, h ! 2, h ! 3])"

text \<open>
  The same two lines on a Python \<^verbatim>\<open>str\<close>, a sequence of code points below \<open>0x110000\<close>.
  \<^verbatim>\<open>keccak(text=signature)\<close> first calls \<^verbatim>\<open>signature.encode("utf-8")\<close>, which raises
  \<^verbatim>\<open>UnicodeEncodeError\<close> on a surrogate (\<open>0xD800\<close> to \<open>0xDFFF\<close>): this is the only
  step of the loop body that can raise.
\<close>

datatype str_error = UnicodeEncodeError

definition is_surrogate :: "nat \<Rightarrow> bool" where
  "is_surrogate c = (0xD800 \<le> c \<and> c \<le> 0xDFFF)"

definition encode_codepoint :: "nat \<Rightarrow> str_error + byte list" where
  "encode_codepoint c =
     (if c < 0x80 then Inr [char_of c]
      else if c < 0x800 then Inr [char_of (0xC0 + c div 64), char_of (0x80 + c mod 64)]
      else if is_surrogate c then Inl UnicodeEncodeError
      else if c < 0x10000 then
        Inr [char_of (0xE0 + c div 4096), char_of (0x80 + c div 64 mod 64),
             char_of (0x80 + c mod 64)]
      else if c < 0x110000 then
        Inr [char_of (0xF0 + c div 262144), char_of (0x80 + c div 4096 mod 64),
             char_of (0x80 + c div 64 mod 64), char_of (0x80 + c mod 64)]
      else Inl UnicodeEncodeError)"

fun encode_utf8 :: "nat list \<Rightarrow> str_error + byte list" where
  "encode_utf8 [] = Inr []"
| "encode_utf8 (c # cs) =
     (case encode_codepoint c of
        Inl e \<Rightarrow> Inl e
      | Inr bs \<Rightarrow> (case encode_utf8 cs of Inl e \<Rightarrow> Inl e | Inr rest \<Rightarrow> Inr (bs @ rest)))"

definition keccak_text :: "nat list \<Rightarrow> str_error + byte list" where
  "keccak_text signature =
     (case encode_utf8 signature of Inl e \<Rightarrow> Inl e | Inr bs \<Rightarrow> Inr (keccak bs))"

definition selector_of_text :: "nat list \<Rightarrow> str_error + byte list" where
  "selector_of_text signature =
     (case keccak_text signature of Inl e \<Rightarrow> Inl e | Inr h \<Rightarrow> Inr (take 4 h))"

text \<open>The strings that have a UTF-8 encoding: the input constraint of the specification.\<close>

definition encodable :: "nat list \<Rightarrow> bool" where
  "encodable s = list_all (\<lambda>c. c < 0x110000 \<and> \<not> is_surrogate c) s"

section \<open>The script \<^verbatim>\<open>router/inch.py\<close>\<close>


text \<open>
  The exceptions of the script: the \<^verbatim>\<open>ValueError\<close> it raises itself with its message,
  Python's \<^verbatim>\<open>TypeError\<close> and \<^verbatim>\<open>KeyError\<close>, what \<^verbatim>\<open>open\<close> raises
  (\<^verbatim>\<open>OSError\<close>), and whatever \<^verbatim>\<open>requests.get\<close> or \<^verbatim>\<open>response.json()\<close> raises, kept
  as it is.
\<close>

datatype py_error =
    ValueError string
  | TypeError
  | KeyError string
  | OSError string
  | RequestsError string

















section \<open>Lengths and shapes\<close>

lemma length_chunks: "length (chunks k n xs) = k"
  by (induction k arbitrary: xs) simp_all

lemma length_bytes_of_lane: "length (bytes_of_lane w) = 8"
  by (simp add: bytes_of_lane_def length_chunks)

lemma length_squeeze: "length (squeeze a) = 32"
proof (cases a)
  case (State p0 p1 p2 p3 p4)
  then show ?thesis
    by (cases p0) (simp add: length_bytes_of_lane)
qed

lemma length_keccak256: "length (keccak256 m) = 32"
  by (simp add: keccak256_def length_squeeze)

lemma length_padding: "length (padding n) = rate - n mod rate"
proof -
  have "n mod rate < rate" by (simp add: rate_def)
  then show ?thesis
    by (auto simp: padding_def Let_def)
qed

text \<open>The padded message is a whole number of blocks, and at least one.\<close>

lemma length_pad: "length (pad m) = rate * (length m div rate + 1)"
proof -
  have lt: "length m mod rate < rate" by (simp add: rate_def)
  have "length m = rate * (length m div rate) + length m mod rate" by simp
  with lt have "length m + (rate - length m mod rate) = rate * (length m div rate) + rate"
    by linarith
  then show ?thesis by (simp add: pad_def length_padding)
qed

lemma length_derive_selector: "length (derive_selector d) = 4"
  by (simp add: derive_selector_def hash_bytes_def keccak_def length_keccak256)

lemma take_four: "4 \<le> length h \<Longrightarrow> take 4 h = [h ! 0, h ! 1, h ! 2, h ! 3]"
  by (simp add: list_eq_iff_nth_eq nth_Cons' numeral_eq_Suc less_Suc_eq)

lemma spec_derive_selector_eq: "derive_selector d = spec_derive_selector d"
  by (simp add: derive_selector_def hash_bytes_def keccak_def spec_derive_selector_def Let_def
      take_four length_keccak256)

lemma report_loop_append: "report_loop out S = out @ map print_line S"
  by (induction S arbitrary: out) simp_all

lemma report_all_map: "report_all S = map print_line S"
  by (simp add: report_all_def report_loop_append)

lemma length_hex_byte: "length (hex_byte c) = 2"
  by (simp add: hex_byte_def)

lemma length_hex: "length (hex bs) = 2 * length bs"
  by (induction bs) (simp_all add: hex_def length_hex_byte)

lemma hexdigit_mem: "n < 16 \<Longrightarrow> hexdigits ! n \<in> set hexdigits"
  by (rule nth_mem) (simp add: hexdigits_def)

lemma set_hex_byte: "set (hex_byte c) \<subseteq> set hexdigits"
proof -
  have "of_char c < (256 :: nat)" by simp
  then have "of_char c div 16 < (16 :: nat)" by (simp add: less_mult_imp_div_less)
  then show ?thesis by (simp add: hex_byte_def hexdigit_mem)
qed

lemma set_hex: "set (hex bs) \<subseteq> set hexdigits"
  using set_hex_byte by (auto simp: hex_def)

lemma hex_four: "hex [b0, b1, b2, b3] = hex_byte b0 @ hex_byte b1 @ hex_byte b2 @ hex_byte b3"
  by (simp add: hex_def)

section \<open>Well-formed states\<close>

text \<open>Every step of the permutation and of the sponge keeps the lanes at 64 bits.\<close>

lemma length_xor_lane: "length (xor_lane a b) = min (length a) (length b)"
  by (induction a b rule: xor_lane.induct) simp_all

lemma length_chi_lane: "length (chi_lane a b c) = min (length a) (min (length b) (length c))"
  by (induction a b c rule: chi_lane.induct) simp_all

lemma wf_xor_lane: "wf_lane a \<Longrightarrow> wf_lane b \<Longrightarrow> wf_lane (xor_lane a b)"
  by (simp add: wf_lane_def length_xor_lane)

lemma wf_chi_lane: "wf_lane a \<Longrightarrow> wf_lane b \<Longrightarrow> wf_lane c \<Longrightarrow> wf_lane (chi_lane a b c)"
  by (simp add: wf_lane_def length_chi_lane)

lemma wf_rotl: "wf_lane w \<Longrightarrow> n \<le> 64 \<Longrightarrow> wf_lane (rotl n w)"
  by (simp add: wf_lane_def rotl_def)

lemma wf_xor_plane: "wf_plane p \<Longrightarrow> wf_plane q \<Longrightarrow> wf_plane (xor_plane p q)"
  by (cases p; cases q) (simp add: wf_xor_lane)

lemma wf_xor_state: "wf_state a \<Longrightarrow> wf_state b \<Longrightarrow> wf_state (xor_state a b)"
  by (cases a; cases b) (simp add: wf_xor_plane)

lemma wf_theta_c: "wf_state a \<Longrightarrow> wf_plane (theta_c a)"
  by (cases a) (simp add: wf_xor_plane)

lemma wf_theta_d: "wf_plane c \<Longrightarrow> wf_plane (theta_d c)"
  by (cases c) (simp add: wf_xor_lane wf_rotl)

lemma wf_xor_planes: "wf_state a \<Longrightarrow> wf_plane d \<Longrightarrow> wf_state (xor_planes a d)"
  by (cases a) (simp add: wf_xor_plane)

lemma wf_theta: "wf_state a \<Longrightarrow> wf_state (theta a)"
  by (simp add: theta_def wf_xor_planes wf_theta_d wf_theta_c)

lemma wf_chi_plane: "wf_plane p \<Longrightarrow> wf_plane (chi_plane p)"
  by (cases p) (simp add: wf_chi_lane)

lemma wf_chi: "wf_state a \<Longrightarrow> wf_state (chi a)"
  by (cases a) (simp add: wf_chi_plane)

lemma wf_iota: "wf_lane rc \<Longrightarrow> wf_state a \<Longrightarrow> wf_state (iota rc a)"
proof (cases a)
  case (State p0 p1 p2 p3 p4)
  assume "wf_lane rc" and "wf_state a"
  with State show ?thesis by (cases p0) (simp add: wf_xor_lane)
qed


lemma wf_rho_pi: "wf_state a \<Longrightarrow> wf_state (rho_pi a)"
proof (cases a)
  case (State p0 p1 p2 p3 p4)
  assume "wf_state a"
  with State show ?thesis
    by (cases p0; cases p1; cases p2; cases p3; cases p4) (simp add: wf_rotl)
qed

lemma wf_keccak_round: "wf_lane rc \<Longrightarrow> wf_state a \<Longrightarrow> wf_state (keccak_round a rc)"
  by (simp add: keccak_round_def wf_iota wf_chi wf_rho_pi wf_theta)

lemma length_bits_of_byte: "length (bits_of_byte b) = 8"
  by (cases b) simp

lemma length_lane_of_bytes: "length (lane_of_bytes bs) = 8 * length bs"
  by (induction bs) (simp_all add: lane_of_bytes_def length_bits_of_byte)

lemma wf_round_constants: "rc \<in> set round_constants \<Longrightarrow> wf_lane rc"
  by (auto simp: round_constants_def wf_lane_def length_lane_of_bytes)

lemma wf_foldl_round:
  "wf_state a \<Longrightarrow> (\<And>rc. rc \<in> set rcs \<Longrightarrow> wf_lane rc) \<Longrightarrow> wf_state (foldl keccak_round a rcs)"
  by (induction rcs arbitrary: a) (simp_all add: wf_keccak_round)

lemma wf_keccak_f: "wf_state a \<Longrightarrow> wf_state (keccak_f a)"
  unfolding keccak_f_def by (rule wf_foldl_round) (simp_all add: wf_round_constants)

lemma wf_zero_state: "wf_state zero_state"
  by (simp add: zero_state_def zero_plane_def zero_lane_def wf_lane_def)

lemma chunks_numeral:
  "chunks (numeral k) n xs = take n xs # chunks (pred_numeral k) n (drop n xs)"
  by (simp add: numeral_eq_Suc)

lemma replicate_numeral: "replicate (numeral k) x = x # replicate (pred_numeral k) x"
  by (simp add: numeral_eq_Suc)

lemma wf_block_state: "length blk = rate \<Longrightarrow> wf_state (block_state blk)"
  by (simp add: block_state_def rate_def chunks_numeral replicate_numeral wf_lane_def
      length_lane_of_bytes zero_lane_def)

lemma wf_absorb_block:
  "wf_state a \<Longrightarrow> length blk = rate \<Longrightarrow> wf_state (absorb_block a blk)"
  by (simp add: absorb_block_def wf_keccak_f wf_xor_state wf_block_state)

lemma length_in_chunks:
  "k * n \<le> length xs \<Longrightarrow> c \<in> set (chunks k n xs) \<Longrightarrow> length c = n"
proof (induction k arbitrary: xs)
  case 0
  then show ?case by simp
next
  case (Suc k)
  from Suc.prems(1) have "n \<le> length xs" and "k * n \<le> length (drop n xs)" by simp_all
  with Suc.IH [of "drop n xs"] Suc.prems(2) show ?case by auto
qed

lemma wf_foldl_absorb:
  "wf_state a \<Longrightarrow> (\<And>blk. blk \<in> set blks \<Longrightarrow> length blk = rate) \<Longrightarrow>
     wf_state (foldl absorb_block a blks)"
  by (induction blks arbitrary: a) (simp_all add: wf_absorb_block)

lemma wf_absorb: "length p mod rate = 0 \<Longrightarrow> wf_state (absorb p)"
  unfolding absorb_def
proof (rule wf_foldl_absorb)
  show "wf_state zero_state" by (rule wf_zero_state)
next
  fix blk
  assume "length p mod rate = 0" and "blk \<in> set (chunks (length p div rate) rate p)"
  then show "length blk = rate"
    by (intro length_in_chunks [of "length p div rate" rate p blk]) simp_all
qed

lemma bytes_of_lane_inverse:
  assumes "wf_lane w"
  shows "lane_of_bytes (bytes_of_lane w) = w"
proof -
  have eight: "length c = 8 \<Longrightarrow> bits_of_byte (byte_of_bits c) = c" for c
    by (auto simp: length_Suc_conv numeral_eq_Suc)
  have "k * 8 = length v \<Longrightarrow> concat (map bits_of_byte (map byte_of_bits (chunks k 8 v))) = v" for k v
  proof (induction k arbitrary: v)
    case 0
    then show ?case by simp
  next
    case (Suc k)
    then have "length (take 8 v) = 8" and "k * 8 = length (drop 8 v)" by simp_all
    with Suc.IH [of "drop 8 v"] show ?case by (simp add: eight)
  qed
  from this [of 8 w] assms show ?thesis
    by (simp add: wf_lane_def lane_of_bytes_def bytes_of_lane_def)
qed

section \<open>The registry loop\<close>

text \<open>
  C2. For every list \<open>S\<close> of declarations the loop prints as many lines as \<open>S\<close> has
  entries, and the \<open>i\<close>-th line is the one of the \<open>i\<close>-th declaration: no entry is
  skipped and the order is the order of \<open>S\<close>.
\<close>

theorem report_all_preserves_order:
  "length (report_all S) = length S \<and>
   report_all S = map print_line S \<and>
   (\<forall>i < length S. report_all S ! i = S ! i @ '': 0x'' @ selector (S ! i))"
  by (simp add: report_all_map print_line_def)

theorem report_all_preserves_order_witness:
  "length (report_all [''A()'', ''B()'']) = 2 \<and>
   report_all [''A()'', ''B()''] ! 1 = ''B()'' @ '': 0x'' @ selector ''B()''"
  using report_all_preserves_order [of "[''A()'', ''B()'']"] by (simp add: print_line_def)

text \<open>C8. The selector of every declaration has exactly four bytes.\<close>

theorem derive_selector_length: "length (derive_selector d) = 4"
  by (simp add: derive_selector_def hash_bytes_def keccak_def length_keccak256)

text \<open>C9. On the empty list of declarations the loop prints nothing.\<close>

theorem report_all_empty: "report_all [] = []"
  by (simp add: report_all_def)

text \<open>
  C10. A declaration listed twice is printed twice, each time with the same selector:
  nothing is filtered out.
\<close>

theorem report_all_duplicate:
  "report_all [d, d] = [d @ '': 0x'' @ selector d, d @ '': 0x'' @ selector d] \<and>
   length (report_all [d, d]) = 2 \<and>
   selector d = hex (derive_selector d)"
  by (simp add: report_all_def print_line_def selector_def derive_selector_def)

section \<open>The swap request\<close>












section \<open>Evaluating the hash\<close>

text \<open>
  Equations that let the simplifier run the permutation on a concrete state: the bit
  operations on known bits, and every rotation of the round as a permutation of the 64
  bits of a lane.
\<close>

lemma xor_lane_eval:
  "xor_lane (False # as) (False # bs) = False # xor_lane as bs"
  "xor_lane (False # as) (True # bs) = True # xor_lane as bs"
  "xor_lane (True # as) (False # bs) = True # xor_lane as bs"
  "xor_lane (True # as) (True # bs) = False # xor_lane as bs"
  "xor_lane [] [] = []"
  by simp_all

lemma chi_lane_eval:
  "chi_lane (False # as) (False # bs) (False # cs) = False # chi_lane as bs cs"
  "chi_lane (False # as) (False # bs) (True # cs) = True # chi_lane as bs cs"
  "chi_lane (False # as) (True # bs) (False # cs) = False # chi_lane as bs cs"
  "chi_lane (False # as) (True # bs) (True # cs) = False # chi_lane as bs cs"
  "chi_lane (True # as) (False # bs) (False # cs) = True # chi_lane as bs cs"
  "chi_lane (True # as) (False # bs) (True # cs) = False # chi_lane as bs cs"
  "chi_lane (True # as) (True # bs) (False # cs) = True # chi_lane as bs cs"
  "chi_lane (True # as) (True # bs) (True # cs) = True # chi_lane as bs cs"
  "chi_lane [] [] [] = []"
  by simp_all

lemma rotl_eval:
  "rotl 0
     [b0, b1, b2, b3, b4, b5, b6, b7, b8, b9, b10, b11, b12, b13, b14, b15,
      b16, b17, b18, b19, b20, b21, b22, b23, b24, b25, b26, b27, b28, b29, b30, b31,
      b32, b33, b34, b35, b36, b37, b38, b39, b40, b41, b42, b43, b44, b45, b46, b47,
      b48, b49, b50, b51, b52, b53, b54, b55, b56, b57, b58, b59, b60, b61, b62, b63] =
     [b0, b1, b2, b3, b4, b5, b6, b7, b8, b9, b10, b11, b12, b13, b14, b15,
      b16, b17, b18, b19, b20, b21, b22, b23, b24, b25, b26, b27, b28, b29, b30, b31,
      b32, b33, b34, b35, b36, b37, b38, b39, b40, b41, b42, b43, b44, b45, b46, b47,
      b48, b49, b50, b51, b52, b53, b54, b55, b56, b57, b58, b59, b60, b61, b62, b63]"
  "rotl 1
     [b0, b1, b2, b3, b4, b5, b6, b7, b8, b9, b10, b11, b12, b13, b14, b15,
      b16, b17, b18, b19, b20, b21, b22, b23, b24, b25, b26, b27, b28, b29, b30, b31,
      b32, b33, b34, b35, b36, b37, b38, b39, b40, b41, b42, b43, b44, b45, b46, b47,
      b48, b49, b50, b51, b52, b53, b54, b55, b56, b57, b58, b59, b60, b61, b62, b63] =
     [b63, b0, b1, b2, b3, b4, b5, b6, b7, b8, b9, b10, b11, b12, b13, b14,
      b15, b16, b17, b18, b19, b20, b21, b22, b23, b24, b25, b26, b27, b28, b29, b30,
      b31, b32, b33, b34, b35, b36, b37, b38, b39, b40, b41, b42, b43, b44, b45, b46,
      b47, b48, b49, b50, b51, b52, b53, b54, b55, b56, b57, b58, b59, b60, b61, b62]"
  "rotl 2
     [b0, b1, b2, b3, b4, b5, b6, b7, b8, b9, b10, b11, b12, b13, b14, b15,
      b16, b17, b18, b19, b20, b21, b22, b23, b24, b25, b26, b27, b28, b29, b30, b31,
      b32, b33, b34, b35, b36, b37, b38, b39, b40, b41, b42, b43, b44, b45, b46, b47,
      b48, b49, b50, b51, b52, b53, b54, b55, b56, b57, b58, b59, b60, b61, b62, b63] =
     [b62, b63, b0, b1, b2, b3, b4, b5, b6, b7, b8, b9, b10, b11, b12, b13,
      b14, b15, b16, b17, b18, b19, b20, b21, b22, b23, b24, b25, b26, b27, b28, b29,
      b30, b31, b32, b33, b34, b35, b36, b37, b38, b39, b40, b41, b42, b43, b44, b45,
      b46, b47, b48, b49, b50, b51, b52, b53, b54, b55, b56, b57, b58, b59, b60, b61]"
  "rotl 3
     [b0, b1, b2, b3, b4, b5, b6, b7, b8, b9, b10, b11, b12, b13, b14, b15,
      b16, b17, b18, b19, b20, b21, b22, b23, b24, b25, b26, b27, b28, b29, b30, b31,
      b32, b33, b34, b35, b36, b37, b38, b39, b40, b41, b42, b43, b44, b45, b46, b47,
      b48, b49, b50, b51, b52, b53, b54, b55, b56, b57, b58, b59, b60, b61, b62, b63] =
     [b61, b62, b63, b0, b1, b2, b3, b4, b5, b6, b7, b8, b9, b10, b11, b12,
      b13, b14, b15, b16, b17, b18, b19, b20, b21, b22, b23, b24, b25, b26, b27, b28,
      b29, b30, b31, b32, b33, b34, b35, b36, b37, b38, b39, b40, b41, b42, b43, b44,
      b45, b46, b47, b48, b49, b50, b51, b52, b53, b54, b55, b56, b57, b58, b59, b60]"
  "rotl 6
     [b0, b1, b2, b3, b4, b5, b6, b7, b8, b9, b10, b11, b12, b13, b14, b15,
      b16, b17, b18, b19, b20, b21, b22, b23, b24, b25, b26, b27, b28, b29, b30, b31,
      b32, b33, b34, b35, b36, b37, b38, b39, b40, b41, b42, b43, b44, b45, b46, b47,
      b48, b49, b50, b51, b52, b53, b54, b55, b56, b57, b58, b59, b60, b61, b62, b63] =
     [b58, b59, b60, b61, b62, b63, b0, b1, b2, b3, b4, b5, b6, b7, b8, b9,
      b10, b11, b12, b13, b14, b15, b16, b17, b18, b19, b20, b21, b22, b23, b24, b25,
      b26, b27, b28, b29, b30, b31, b32, b33, b34, b35, b36, b37, b38, b39, b40, b41,
      b42, b43, b44, b45, b46, b47, b48, b49, b50, b51, b52, b53, b54, b55, b56, b57]"
  "rotl 8
     [b0, b1, b2, b3, b4, b5, b6, b7, b8, b9, b10, b11, b12, b13, b14, b15,
      b16, b17, b18, b19, b20, b21, b22, b23, b24, b25, b26, b27, b28, b29, b30, b31,
      b32, b33, b34, b35, b36, b37, b38, b39, b40, b41, b42, b43, b44, b45, b46, b47,
      b48, b49, b50, b51, b52, b53, b54, b55, b56, b57, b58, b59, b60, b61, b62, b63] =
     [b56, b57, b58, b59, b60, b61, b62, b63, b0, b1, b2, b3, b4, b5, b6, b7,
      b8, b9, b10, b11, b12, b13, b14, b15, b16, b17, b18, b19, b20, b21, b22, b23,
      b24, b25, b26, b27, b28, b29, b30, b31, b32, b33, b34, b35, b36, b37, b38, b39,
      b40, b41, b42, b43, b44, b45, b46, b47, b48, b49, b50, b51, b52, b53, b54, b55]"
  "rotl 10
     [b0, b1, b2, b3, b4, b5, b6, b7, b8, b9, b10, b11, b12, b13, b14, b15,
      b16, b17, b18, b19, b20, b21, b22, b23, b24, b25, b26, b27, b28, b29, b30, b31,
      b32, b33, b34, b35, b36, b37, b38, b39, b40, b41, b42, b43, b44, b45, b46, b47,
      b48, b49, b50, b51, b52, b53, b54, b55, b56, b57, b58, b59, b60, b61, b62, b63] =
     [b54, b55, b56, b57, b58, b59, b60, b61, b62, b63, b0, b1, b2, b3, b4, b5,
      b6, b7, b8, b9, b10, b11, b12, b13, b14, b15, b16, b17, b18, b19, b20, b21,
      b22, b23, b24, b25, b26, b27, b28, b29, b30, b31, b32, b33, b34, b35, b36, b37,
      b38, b39, b40, b41, b42, b43, b44, b45, b46, b47, b48, b49, b50, b51, b52, b53]"
  "rotl 14
     [b0, b1, b2, b3, b4, b5, b6, b7, b8, b9, b10, b11, b12, b13, b14, b15,
      b16, b17, b18, b19, b20, b21, b22, b23, b24, b25, b26, b27, b28, b29, b30, b31,
      b32, b33, b34, b35, b36, b37, b38, b39, b40, b41, b42, b43, b44, b45, b46, b47,
      b48, b49, b50, b51, b52, b53, b54, b55, b56, b57, b58, b59, b60, b61, b62, b63] =
     [b50, b51, b52, b53, b54, b55, b56, b57, b58, b59, b60, b61, b62, b63, b0, b1,
      b2, b3, b4, b5, b6, b7, b8, b9, b10, b11, b12, b13, b14, b15, b16, b17,
      b18, b19, b20, b21, b22, b23, b24, b25, b26, b27, b28, b29, b30, b31, b32, b33,
      b34, b35, b36, b37, b38, b39, b40, b41, b42, b43, b44, b45, b46, b47, b48, b49]"
  "rotl 15
     [b0, b1, b2, b3, b4, b5, b6, b7, b8, b9, b10, b11, b12, b13, b14, b15,
      b16, b17, b18, b19, b20, b21, b22, b23, b24, b25, b26, b27, b28, b29, b30, b31,
      b32, b33, b34, b35, b36, b37, b38, b39, b40, b41, b42, b43, b44, b45, b46, b47,
      b48, b49, b50, b51, b52, b53, b54, b55, b56, b57, b58, b59, b60, b61, b62, b63] =
     [b49, b50, b51, b52, b53, b54, b55, b56, b57, b58, b59, b60, b61, b62, b63, b0,
      b1, b2, b3, b4, b5, b6, b7, b8, b9, b10, b11, b12, b13, b14, b15, b16,
      b17, b18, b19, b20, b21, b22, b23, b24, b25, b26, b27, b28, b29, b30, b31, b32,
      b33, b34, b35, b36, b37, b38, b39, b40, b41, b42, b43, b44, b45, b46, b47, b48]"
  "rotl 18
     [b0, b1, b2, b3, b4, b5, b6, b7, b8, b9, b10, b11, b12, b13, b14, b15,
      b16, b17, b18, b19, b20, b21, b22, b23, b24, b25, b26, b27, b28, b29, b30, b31,
      b32, b33, b34, b35, b36, b37, b38, b39, b40, b41, b42, b43, b44, b45, b46, b47,
      b48, b49, b50, b51, b52, b53, b54, b55, b56, b57, b58, b59, b60, b61, b62, b63] =
     [b46, b47, b48, b49, b50, b51, b52, b53, b54, b55, b56, b57, b58, b59, b60, b61,
      b62, b63, b0, b1, b2, b3, b4, b5, b6, b7, b8, b9, b10, b11, b12, b13,
      b14, b15, b16, b17, b18, b19, b20, b21, b22, b23, b24, b25, b26, b27, b28, b29,
      b30, b31, b32, b33, b34, b35, b36, b37, b38, b39, b40, b41, b42, b43, b44, b45]"
  "rotl 20
     [b0, b1, b2, b3, b4, b5, b6, b7, b8, b9, b10, b11, b12, b13, b14, b15,
      b16, b17, b18, b19, b20, b21, b22, b23, b24, b25, b26, b27, b28, b29, b30, b31,
      b32, b33, b34, b35, b36, b37, b38, b39, b40, b41, b42, b43, b44, b45, b46, b47,
      b48, b49, b50, b51, b52, b53, b54, b55, b56, b57, b58, b59, b60, b61, b62, b63] =
     [b44, b45, b46, b47, b48, b49, b50, b51, b52, b53, b54, b55, b56, b57, b58, b59,
      b60, b61, b62, b63, b0, b1, b2, b3, b4, b5, b6, b7, b8, b9, b10, b11,
      b12, b13, b14, b15, b16, b17, b18, b19, b20, b21, b22, b23, b24, b25, b26, b27,
      b28, b29, b30, b31, b32, b33, b34, b35, b36, b37, b38, b39, b40, b41, b42, b43]"
  "rotl 21
     [b0, b1, b2, b3, b4, b5, b6, b7, b8, b9, b10, b11, b12, b13, b14, b15,
      b16, b17, b18, b19, b20, b21, b22, b23, b24, b25, b26, b27, b28, b29, b30, b31,
      b32, b33, b34, b35, b36, b37, b38, b39, b40, b41, b42, b43, b44, b45, b46, b47,
      b48, b49, b50, b51, b52, b53, b54, b55, b56, b57, b58, b59, b60, b61, b62, b63] =
     [b43, b44, b45, b46, b47, b48, b49, b50, b51, b52, b53, b54, b55, b56, b57, b58,
      b59, b60, b61, b62, b63, b0, b1, b2, b3, b4, b5, b6, b7, b8, b9, b10,
      b11, b12, b13, b14, b15, b16, b17, b18, b19, b20, b21, b22, b23, b24, b25, b26,
      b27, b28, b29, b30, b31, b32, b33, b34, b35, b36, b37, b38, b39, b40, b41, b42]"
  "rotl 25
     [b0, b1, b2, b3, b4, b5, b6, b7, b8, b9, b10, b11, b12, b13, b14, b15,
      b16, b17, b18, b19, b20, b21, b22, b23, b24, b25, b26, b27, b28, b29, b30, b31,
      b32, b33, b34, b35, b36, b37, b38, b39, b40, b41, b42, b43, b44, b45, b46, b47,
      b48, b49, b50, b51, b52, b53, b54, b55, b56, b57, b58, b59, b60, b61, b62, b63] =
     [b39, b40, b41, b42, b43, b44, b45, b46, b47, b48, b49, b50, b51, b52, b53, b54,
      b55, b56, b57, b58, b59, b60, b61, b62, b63, b0, b1, b2, b3, b4, b5, b6,
      b7, b8, b9, b10, b11, b12, b13, b14, b15, b16, b17, b18, b19, b20, b21, b22,
      b23, b24, b25, b26, b27, b28, b29, b30, b31, b32, b33, b34, b35, b36, b37, b38]"
  "rotl 27
     [b0, b1, b2, b3, b4, b5, b6, b7, b8, b9, b10, b11, b12, b13, b14, b15,
      b16, b17, b18, b19, b20, b21, b22, b23, b24, b25, b26, b27, b28, b29, b30, b31,
      b32, b33, b34, b35, b36, b37, b38, b39, b40, b41, b42, b43, b44, b45, b46, b47,
      b48, b49, b50, b51, b52, b53, b54, b55, b56, b57, b58, b59, b60, b61, b62, b63] =
     [b37, b38, b39, b40, b41, b42, b43, b44, b45, b46, b47, b48, b49, b50, b51, b52,
      b53, b54, b55, b56, b57, b58, b59, b60, b61, b62, b63, b0, b1, b2, b3, b4,
      b5, b6, b7, b8, b9, b10, b11, b12, b13, b14, b15, b16, b17, b18, b19, b20,
      b21, b22, b23, b24, b25, b26, b27, b28, b29, b30, b31, b32, b33, b34, b35, b36]"
  "rotl 28
     [b0, b1, b2, b3, b4, b5, b6, b7, b8, b9, b10, b11, b12, b13, b14, b15,
      b16, b17, b18, b19, b20, b21, b22, b23, b24, b25, b26, b27, b28, b29, b30, b31,
      b32, b33, b34, b35, b36, b37, b38, b39, b40, b41, b42, b43, b44, b45, b46, b47,
      b48, b49, b50, b51, b52, b53, b54, b55, b56, b57, b58, b59, b60, b61, b62, b63] =
     [b36, b37, b38, b39, b40, b41, b42, b43, b44, b45, b46, b47, b48, b49, b50, b51,
      b52, b53, b54, b55, b56, b57, b58, b59, b60, b61, b62, b63, b0, b1, b2, b3,
      b4, b5, b6, b7, b8, b9, b10, b11, b12, b13, b14, b15, b16, b17, b18, b19,
      b20, b21, b22, b23, b24, b25, b26, b27, b28, b29, b30, b31, b32, b33, b34, b35]"
  "rotl 36
     [b0, b1, b2, b3, b4, b5, b6, b7, b8, b9, b10, b11, b12, b13, b14, b15,
      b16, b17, b18, b19, b20, b21, b22, b23, b24, b25, b26, b27, b28, b29, b30, b31,
      b32, b33, b34, b35, b36, b37, b38, b39, b40, b41, b42, b43, b44, b45, b46, b47,
      b48, b49, b50, b51, b52, b53, b54, b55, b56, b57, b58, b59, b60, b61, b62, b63] =
     [b28, b29, b30, b31, b32, b33, b34, b35, b36, b37, b38, b39, b40, b41, b42, b43,
      b44, b45, b46, b47, b48, b49, b50, b51, b52, b53, b54, b55, b56, b57, b58, b59,
      b60, b61, b62, b63, b0, b1, b2, b3, b4, b5, b6, b7, b8, b9, b10, b11,
      b12, b13, b14, b15, b16, b17, b18, b19, b20, b21, b22, b23, b24, b25, b26, b27]"
  "rotl 39
     [b0, b1, b2, b3, b4, b5, b6, b7, b8, b9, b10, b11, b12, b13, b14, b15,
      b16, b17, b18, b19, b20, b21, b22, b23, b24, b25, b26, b27, b28, b29, b30, b31,
      b32, b33, b34, b35, b36, b37, b38, b39, b40, b41, b42, b43, b44, b45, b46, b47,
      b48, b49, b50, b51, b52, b53, b54, b55, b56, b57, b58, b59, b60, b61, b62, b63] =
     [b25, b26, b27, b28, b29, b30, b31, b32, b33, b34, b35, b36, b37, b38, b39, b40,
      b41, b42, b43, b44, b45, b46, b47, b48, b49, b50, b51, b52, b53, b54, b55, b56,
      b57, b58, b59, b60, b61, b62, b63, b0, b1, b2, b3, b4, b5, b6, b7, b8,
      b9, b10, b11, b12, b13, b14, b15, b16, b17, b18, b19, b20, b21, b22, b23, b24]"
  "rotl 41
     [b0, b1, b2, b3, b4, b5, b6, b7, b8, b9, b10, b11, b12, b13, b14, b15,
      b16, b17, b18, b19, b20, b21, b22, b23, b24, b25, b26, b27, b28, b29, b30, b31,
      b32, b33, b34, b35, b36, b37, b38, b39, b40, b41, b42, b43, b44, b45, b46, b47,
      b48, b49, b50, b51, b52, b53, b54, b55, b56, b57, b58, b59, b60, b61, b62, b63] =
     [b23, b24, b25, b26, b27, b28, b29, b30, b31, b32, b33, b34, b35, b36, b37, b38,
      b39, b40, b41, b42, b43, b44, b45, b46, b47, b48, b49, b50, b51, b52, b53, b54,
      b55, b56, b57, b58, b59, b60, b61, b62, b63, b0, b1, b2, b3, b4, b5, b6,
      b7, b8, b9, b10, b11, b12, b13, b14, b15, b16, b17, b18, b19, b20, b21, b22]"
  "rotl 43
     [b0, b1, b2, b3, b4, b5, b6, b7, b8, b9, b10, b11, b12, b13, b14, b15,
      b16, b17, b18, b19, b20, b21, b22, b23, b24, b25, b26, b27, b28, b29, b30, b31,
      b32, b33, b34, b35, b36, b37, b38, b39, b40, b41, b42, b43, b44, b45, b46, b47,
      b48, b49, b50, b51, b52, b53, b54, b55, b56, b57, b58, b59, b60, b61, b62, b63] =
     [b21, b22, b23, b24, b25, b26, b27, b28, b29, b30, b31, b32, b33, b34, b35, b36,
      b37, b38, b39, b40, b41, b42, b43, b44, b45, b46, b47, b48, b49, b50, b51, b52,
      b53, b54, b55, b56, b57, b58, b59, b60, b61, b62, b63, b0, b1, b2, b3, b4,
      b5, b6, b7, b8, b9, b10, b11, b12, b13, b14, b15, b16, b17, b18, b19, b20]"
  "rotl 44
     [b0, b1, b2, b3, b4, b5, b6, b7, b8, b9, b10, b11, b12, b13, b14, b15,
      b16, b17, b18, b19, b20, b21, b22, b23, b24, b25, b26, b27, b28, b29, b30, b31,
      b32, b33, b34, b35, b36, b37, b38, b39, b40, b41, b42, b43, b44, b45, b46, b47,
      b48, b49, b50, b51, b52, b53, b54, b55, b56, b57, b58, b59, b60, b61, b62, b63] =
     [b20, b21, b22, b23, b24, b25, b26, b27, b28, b29, b30, b31, b32, b33, b34, b35,
      b36, b37, b38, b39, b40, b41, b42, b43, b44, b45, b46, b47, b48, b49, b50, b51,
      b52, b53, b54, b55, b56, b57, b58, b59, b60, b61, b62, b63, b0, b1, b2, b3,
      b4, b5, b6, b7, b8, b9, b10, b11, b12, b13, b14, b15, b16, b17, b18, b19]"
  "rotl 45
     [b0, b1, b2, b3, b4, b5, b6, b7, b8, b9, b10, b11, b12, b13, b14, b15,
      b16, b17, b18, b19, b20, b21, b22, b23, b24, b25, b26, b27, b28, b29, b30, b31,
      b32, b33, b34, b35, b36, b37, b38, b39, b40, b41, b42, b43, b44, b45, b46, b47,
      b48, b49, b50, b51, b52, b53, b54, b55, b56, b57, b58, b59, b60, b61, b62, b63] =
     [b19, b20, b21, b22, b23, b24, b25, b26, b27, b28, b29, b30, b31, b32, b33, b34,
      b35, b36, b37, b38, b39, b40, b41, b42, b43, b44, b45, b46, b47, b48, b49, b50,
      b51, b52, b53, b54, b55, b56, b57, b58, b59, b60, b61, b62, b63, b0, b1, b2,
      b3, b4, b5, b6, b7, b8, b9, b10, b11, b12, b13, b14, b15, b16, b17, b18]"
  "rotl 55
     [b0, b1, b2, b3, b4, b5, b6, b7, b8, b9, b10, b11, b12, b13, b14, b15,
      b16, b17, b18, b19, b20, b21, b22, b23, b24, b25, b26, b27, b28, b29, b30, b31,
      b32, b33, b34, b35, b36, b37, b38, b39, b40, b41, b42, b43, b44, b45, b46, b47,
      b48, b49, b50, b51, b52, b53, b54, b55, b56, b57, b58, b59, b60, b61, b62, b63] =
     [b9, b10, b11, b12, b13, b14, b15, b16, b17, b18, b19, b20, b21, b22, b23, b24,
      b25, b26, b27, b28, b29, b30, b31, b32, b33, b34, b35, b36, b37, b38, b39, b40,
      b41, b42, b43, b44, b45, b46, b47, b48, b49, b50, b51, b52, b53, b54, b55, b56,
      b57, b58, b59, b60, b61, b62, b63, b0, b1, b2, b3, b4, b5, b6, b7, b8]"
  "rotl 56
     [b0, b1, b2, b3, b4, b5, b6, b7, b8, b9, b10, b11, b12, b13, b14, b15,
      b16, b17, b18, b19, b20, b21, b22, b23, b24, b25, b26, b27, b28, b29, b30, b31,
      b32, b33, b34, b35, b36, b37, b38, b39, b40, b41, b42, b43, b44, b45, b46, b47,
      b48, b49, b50, b51, b52, b53, b54, b55, b56, b57, b58, b59, b60, b61, b62, b63] =
     [b8, b9, b10, b11, b12, b13, b14, b15, b16, b17, b18, b19, b20, b21, b22, b23,
      b24, b25, b26, b27, b28, b29, b30, b31, b32, b33, b34, b35, b36, b37, b38, b39,
      b40, b41, b42, b43, b44, b45, b46, b47, b48, b49, b50, b51, b52, b53, b54, b55,
      b56, b57, b58, b59, b60, b61, b62, b63, b0, b1, b2, b3, b4, b5, b6, b7]"
  "rotl 61
     [b0, b1, b2, b3, b4, b5, b6, b7, b8, b9, b10, b11, b12, b13, b14, b15,
      b16, b17, b18, b19, b20, b21, b22, b23, b24, b25, b26, b27, b28, b29, b30, b31,
      b32, b33, b34, b35, b36, b37, b38, b39, b40, b41, b42, b43, b44, b45, b46, b47,
      b48, b49, b50, b51, b52, b53, b54, b55, b56, b57, b58, b59, b60, b61, b62, b63] =
     [b3, b4, b5, b6, b7, b8, b9, b10, b11, b12, b13, b14, b15, b16, b17, b18,
      b19, b20, b21, b22, b23, b24, b25, b26, b27, b28, b29, b30, b31, b32, b33, b34,
      b35, b36, b37, b38, b39, b40, b41, b42, b43, b44, b45, b46, b47, b48, b49, b50,
      b51, b52, b53, b54, b55, b56, b57, b58, b59, b60, b61, b62, b63, b0, b1, b2]"
  "rotl 62
     [b0, b1, b2, b3, b4, b5, b6, b7, b8, b9, b10, b11, b12, b13, b14, b15,
      b16, b17, b18, b19, b20, b21, b22, b23, b24, b25, b26, b27, b28, b29, b30, b31,
      b32, b33, b34, b35, b36, b37, b38, b39, b40, b41, b42, b43, b44, b45, b46, b47,
      b48, b49, b50, b51, b52, b53, b54, b55, b56, b57, b58, b59, b60, b61, b62, b63] =
     [b2, b3, b4, b5, b6, b7, b8, b9, b10, b11, b12, b13, b14, b15, b16, b17,
      b18, b19, b20, b21, b22, b23, b24, b25, b26, b27, b28, b29, b30, b31, b32, b33,
      b34, b35, b36, b37, b38, b39, b40, b41, b42, b43, b44, b45, b46, b47, b48, b49,
      b50, b51, b52, b53, b54, b55, b56, b57, b58, b59, b60, b61, b62, b63, b0, b1]"
  by (simp_all add: rotl_def)

lemmas sponge_unfold =
  derive_selector_def hash_bytes_def keccak_def keccak256_def pad_def padding_def rate_def
  absorb_def absorb_block_def block_state_def chunks_numeral lane_of_bytes_def
  zero_state_def zero_plane_def zero_lane_def replicate_numeral

lemmas permutation_eval =
  keccak_f_def round_constants_def list.map rev.simps append.simps lane_of_bytes_def
  concat.simps bits_of_byte.simps foldl.simps keccak_round_def theta_def theta_c.simps
  theta_d.simps xor_planes.simps xor_plane.simps rho_pi.simps chi.simps chi_plane.simps
  iota.simps rotl_eval xor_lane_eval chi_lane_eval

lemmas squeeze_eval = bytes_of_lane_def chunks_numeral

text \<open>The selector of the empty string and of each entry of the registry.\<close>

lemma selector_empty:
  "derive_selector '''' = [CHR 0xc5, CHR 0xd2, CHR 0x46, CHR 0x01]"
  by (simp add: sponge_unfold, simp only: permutation_eval, simp add: squeeze_eval)

lemma selector_ZeroShares:
  "derive_selector ''ZeroShares()'' = [CHR 0x98, CHR 0x11, CHR 0xe0, CHR 0xc7]"
  by (simp add: sponge_unfold, simp only: permutation_eval, simp add: squeeze_eval)

lemma selector_RequestNotExecuted:
  "derive_selector ''RequestNotExecuted()'' = [CHR 0xbe, CHR 0x9c, CHR 0x30, CHR 0xb4]"
  by (simp add: sponge_unfold, simp only: permutation_eval, simp add: squeeze_eval)

lemma selector_RequestAlreadyClaimed:
  "derive_selector ''RequestAlreadyClaimed()'' = [CHR 0x54, CHR 0xe1, CHR 0x9f, CHR 0xeb]"
  by (simp add: sponge_unfold, simp only: permutation_eval, simp add: squeeze_eval)

lemma selector_UnauthorizedClaimer_address_address:
  "derive_selector ''UnauthorizedClaimer(address,address)'' = [CHR 0x3e, CHR 0xbd, CHR 0x5f, CHR 0xe5]"
  by (simp add: sponge_unfold, simp only: permutation_eval, simp add: squeeze_eval)

lemma selector_InchSwapInvailidTokens:
  "derive_selector ''InchSwapInvailidTokens()'' = [CHR 0x23, CHR 0x69, CHR 0x77, CHR 0x74]"
  by (simp add: sponge_unfold, simp only: permutation_eval, simp add: squeeze_eval)

lemma selector_InchSwapAmountExceedsBalance_uint256_uint256:
  "derive_selector ''InchSwapAmountExceedsBalance(uint256,uint256)'' = [CHR 0x27, CHR 0x08, CHR 0x91, CHR 0x0a]"
  by (simp add: sponge_unfold, simp only: permutation_eval, simp add: squeeze_eval)

lemma selector_InchInvalidReceiver:
  "derive_selector ''InchInvalidReceiver()'' = [CHR 0x2a, CHR 0x55, CHR 0x87, CHR 0xf5]"
  by (simp add: sponge_unfold, simp only: permutation_eval, simp add: squeeze_eval)

lemma selector_InchInvalidAmount_uint256_uint256:
  "derive_selector ''InchInvalidAmount(uint256,uint256)'' = [CHR 0x36, CHR 0x9c, CHR 0x67, CHR 0x10]"
  by (simp add: sponge_unfold, simp only: permutation_eval, simp add: squeeze_eval)

lemma selector_IncosistentParamsLength:
  "derive_selector ''IncosistentParamsLength()'' = [CHR 0x53, CHR 0xdd, CHR 0x5b, CHR 0xa1]"
  by (simp add: sponge_unfold, simp only: permutation_eval, simp add: squeeze_eval)

lemma selector_CallerNotFactory:
  "derive_selector ''CallerNotFactory()'' = [CHR 0xa8, CHR 0x41, CHR 0x78, CHR 0xab]"
  by (simp add: sponge_unfold, simp only: permutation_eval, simp add: squeeze_eval)

lemma selector_CallerNotStrategy:
  "derive_selector ''CallerNotStrategy()'' = [CHR 0xe6, CHR 0x2e, CHR 0xfe, CHR 0xc7]"
  by (simp add: sponge_unfold, simp only: permutation_eval, simp add: squeeze_eval)

lemma selector_CallerNotKeeper:
  "derive_selector ''CallerNotKeeper()'' = [CHR 0x04, CHR 0xe1, CHR 0xfa, CHR 0x9f]"
  by (simp add: sponge_unfold, simp only: permutation_eval, simp add: squeeze_eval)

lemma selector_InvalidMarket:
  "derive_selector ''InvalidMarket()'' = [CHR 0x9d, CHR 0xb8, CHR 0xd5, CHR 0xb1]"
  by (simp add: sponge_unfold, simp only: permutation_eval, simp add: squeeze_eval)

lemma selector_InvalidInitializationAssets:
  "derive_selector ''InvalidInitializationAssets()'' = [CHR 0x48, CHR 0x26, CHR 0xad, CHR 0xec]"
  by (simp add: sponge_unfold, simp only: permutation_eval, simp add: squeeze_eval)

lemma selector_CallbackNotAllowed:
  "derive_selector ''CallbackNotAllowed()'' = [CHR 0xa1, CHR 0xee, CHR 0x36, CHR 0x4f]"
  by (simp add: sponge_unfold, simp only: permutation_eval, simp add: squeeze_eval)

lemma selector_ZeroAddress:
  "derive_selector ''ZeroAddress()'' = [CHR 0xd9, CHR 0x2e, CHR 0x23, CHR 0x3d]"
  by (simp add: sponge_unfold, simp only: permutation_eval, simp add: squeeze_eval)

lemma selector_ArrayLengthMissmatch:
  "derive_selector ''ArrayLengthMissmatch()'' = [CHR 0x7f, CHR 0x44, CHR 0x15, CHR 0xae]"
  by (simp add: sponge_unfold, simp only: permutation_eval, simp add: squeeze_eval)

lemma selector_AlreadyPending:
  "derive_selector ''AlreadyPending()'' = [CHR 0x49, CHR 0xb2, CHR 0x04, CHR 0xce]"
  by (simp add: sponge_unfold, simp only: permutation_eval, simp add: squeeze_eval)

lemma selector_InvalidFeedPrice_address_int256:
  "derive_selector ''InvalidFeedPrice(address,int256)'' = [CHR 0xbe, CHR 0x65, CHR 0x14, CHR 0xb6]"
  by (simp add: sponge_unfold, simp only: permutation_eval, simp add: squeeze_eval)

lemma selector_PriceFeedNotUpdated_address_uint256_uint256:
  "derive_selector ''PriceFeedNotUpdated(address,uint256,uint256)'' = [CHR 0x90, CHR 0xce, CHR 0x16, CHR 0x73]"
  by (simp add: sponge_unfold, simp only: permutation_eval, simp add: squeeze_eval)

lemma selector_PriceFeedNotConfigured:
  "derive_selector ''PriceFeedNotConfigured()'' = [CHR 0x19, CHR 0x7d, CHR 0x2f, CHR 0xcb]"
  by (simp add: sponge_unfold, simp only: permutation_eval, simp add: squeeze_eval)

lemma selector_EmptyPriceFeedMultiplier_address:
  "derive_selector ''EmptyPriceFeedMultiplier(address)'' = [CHR 0xcc, CHR 0x11, CHR 0x18, CHR 0x85]"
  by (simp add: sponge_unfold, simp only: permutation_eval, simp add: squeeze_eval)

lemma selector_InsufficientExecutionFee_uint256_uint256:
  "derive_selector ''InsufficientExecutionFee(uint256,uint256)'' = [CHR 0x5d, CHR 0xac, CHR 0x50, CHR 0x4d]"
  by (simp add: sponge_unfold, simp only: permutation_eval, simp add: squeeze_eval)

lemma selector_OracleInvalidPrice:
  "derive_selector ''OracleInvalidPrice()'' = [CHR 0xc9, CHR 0x69, CHR 0xc5, CHR 0x93]"
  by (simp add: sponge_unfold, simp only: permutation_eval, simp add: squeeze_eval)

lemma selector_InsufficientIdleBalanceForUtilize_uint256_uint256:
  "derive_selector ''InsufficientIdleBalanceForUtilize(uint256,uint256)'' = [CHR 0x6d, CHR 0xa0, CHR 0xc7, CHR 0x08]"
  by (simp add: sponge_unfold, simp only: permutation_eval, simp add: squeeze_eval)

lemma selector_InsufficientProdcutBalanceForDeutilize_uint256_uint256:
  "derive_selector ''InsufficientProdcutBalanceForDeutilize(uint256,uint256)'' = [CHR 0xc4, CHR 0xcf, CHR 0xf2, CHR 0xb1]"
  by (simp add: sponge_unfold, simp only: permutation_eval, simp add: squeeze_eval)

lemma selector_UnsupportedSwapType:
  "derive_selector ''UnsupportedSwapType()'' = [CHR 0xc8, CHR 0xbd, CHR 0xe2, CHR 0x27]"
  by (simp add: sponge_unfold, simp only: permutation_eval, simp add: squeeze_eval)

lemma selector_UnAuthorizedForwarder_address:
  "derive_selector ''UnAuthorizedForwarder(address)'' = [CHR 0x7e, CHR 0xeb, CHR 0x17, CHR 0x11]"
  by (simp add: sponge_unfold, simp only: permutation_eval, simp add: squeeze_eval)

lemma selector_NotPositivePnl:
  "derive_selector ''NotPositivePnl()'' = [CHR 0xca, CHR 0xcc, CHR 0xd7, CHR 0xa6]"
  by (simp add: sponge_unfold, simp only: permutation_eval, simp add: squeeze_eval)

lemma selector_ActiveRequestIsNotClosed_bytes32:
  "derive_selector ''ActiveRequestIsNotClosed(bytes32)'' = [CHR 0xe0, CHR 0xd2, CHR 0x68, CHR 0xa1]"
  by (simp add: sponge_unfold, simp only: permutation_eval, simp add: squeeze_eval)

lemma selector_StatusNotIdle:
  "derive_selector ''StatusNotIdle()'' = [CHR 0x34, CHR 0x34, CHR 0xc1, CHR 0xd2]"
  by (simp add: sponge_unfold, simp only: permutation_eval, simp add: squeeze_eval)

lemma selector_ZeroPendingUtilization:
  "derive_selector ''ZeroPendingUtilization()'' = [CHR 0xe6, CHR 0xe0, CHR 0xbb, CHR 0x16]"
  by (simp add: sponge_unfold, simp only: permutation_eval, simp add: squeeze_eval)

lemma selector_ZeroAmountUtilization:
  "derive_selector ''ZeroAmountUtilization()'' = [CHR 0x6f, CHR 0xa4, CHR 0x90, CHR 0xcd]"
  by (simp add: sponge_unfold, simp only: permutation_eval, simp add: squeeze_eval)

lemma selector_CallerNotPositionManager:
  "derive_selector ''CallerNotPositionManager()'' = [CHR 0xab, CHR 0xd8, CHR 0x02, CHR 0x24]"
  by (simp add: sponge_unfold, simp only: permutation_eval, simp add: squeeze_eval)

lemma selector_CallerNotAgent:
  "derive_selector ''CallerNotAgent()'' = [CHR 0xd7, CHR 0x80, CHR 0x0e, CHR 0x18]"
  by (simp add: sponge_unfold, simp only: permutation_eval, simp add: squeeze_eval)

lemma selector_InvalidRequestId_bytes32_bytes32:
  "derive_selector ''InvalidRequestId(bytes32,bytes32)'' = [CHR 0x0b, CHR 0xb3, CHR 0x09, CHR 0xa2]"
  by (simp add: sponge_unfold, simp only: permutation_eval, simp add: squeeze_eval)

lemma selector_InvalidCallback:
  "derive_selector ''InvalidCallback()'' = [CHR 0xf7, CHR 0xa6, CHR 0x32, CHR 0xf5]"
  by (simp add: sponge_unfold, simp only: permutation_eval, simp add: squeeze_eval)

lemma selector_InvalidActiveRequestType:
  "derive_selector ''InvalidActiveRequestType()'' = [CHR 0x5e, CHR 0x42, CHR 0x45, CHR 0xeb]"
  by (simp add: sponge_unfold, simp only: permutation_eval, simp add: squeeze_eval)

lemma selector_InsufficientCollateralBalance_uint256_uint256:
  "derive_selector ''InsufficientCollateralBalance(uint256,uint256)'' = [CHR 0x7b, CHR 0xe3, CHR 0x45, CHR 0xc8]"
  by (simp add: sponge_unfold, simp only: permutation_eval, simp add: squeeze_eval)

lemma selector_NoActiveRequests:
  "derive_selector ''NoActiveRequests()'' = [CHR 0x56, CHR 0x9d, CHR 0x14, CHR 0x29]"
  by (simp add: sponge_unfold, simp only: permutation_eval, simp add: squeeze_eval)

lemma selector_CallerNotOperator:
  "derive_selector ''CallerNotOperator()'' = [CHR 0xa5, CHR 0x52, CHR 0x3e, CHR 0xe5]"
  by (simp add: sponge_unfold, simp only: permutation_eval, simp add: squeeze_eval)

lemma selector_InvalidStrategyStatus_uint8:
  "derive_selector ''InvalidStrategyStatus(uint8)'' = [CHR 0xd5, CHR 0xc3, CHR 0x7b, CHR 0xed]"
  by (simp add: sponge_unfold, simp only: permutation_eval, simp add: squeeze_eval)

lemma length_error_signatures: "length error_signatures = 42"
  by (simp add: error_signatures_def)

lemma registry_selectors:
  "map derive_selector error_signatures =
   [[CHR 0x98, CHR 0x11, CHR 0xe0, CHR 0xc7], [CHR 0xbe, CHR 0x9c, CHR 0x30, CHR 0xb4],
    [CHR 0x54, CHR 0xe1, CHR 0x9f, CHR 0xeb], [CHR 0x3e, CHR 0xbd, CHR 0x5f, CHR 0xe5],
    [CHR 0x23, CHR 0x69, CHR 0x77, CHR 0x74], [CHR 0x27, CHR 0x08, CHR 0x91, CHR 0x0a],
    [CHR 0x2a, CHR 0x55, CHR 0x87, CHR 0xf5], [CHR 0x36, CHR 0x9c, CHR 0x67, CHR 0x10],
    [CHR 0x53, CHR 0xdd, CHR 0x5b, CHR 0xa1], [CHR 0xa8, CHR 0x41, CHR 0x78, CHR 0xab],
    [CHR 0xe6, CHR 0x2e, CHR 0xfe, CHR 0xc7], [CHR 0x04, CHR 0xe1, CHR 0xfa, CHR 0x9f],
    [CHR 0x9d, CHR 0xb8, CHR 0xd5, CHR 0xb1], [CHR 0x48, CHR 0x26, CHR 0xad, CHR 0xec],
    [CHR 0xa1, CHR 0xee, CHR 0x36, CHR 0x4f], [CHR 0xd9, CHR 0x2e, CHR 0x23, CHR 0x3d],
    [CHR 0x7f, CHR 0x44, CHR 0x15, CHR 0xae], [CHR 0x49, CHR 0xb2, CHR 0x04, CHR 0xce],
    [CHR 0xbe, CHR 0x65, CHR 0x14, CHR 0xb6], [CHR 0x90, CHR 0xce, CHR 0x16, CHR 0x73],
    [CHR 0x19, CHR 0x7d, CHR 0x2f, CHR 0xcb], [CHR 0xcc, CHR 0x11, CHR 0x18, CHR 0x85],
    [CHR 0x5d, CHR 0xac, CHR 0x50, CHR 0x4d], [CHR 0xc9, CHR 0x69, CHR 0xc5, CHR 0x93],
    [CHR 0x6d, CHR 0xa0, CHR 0xc7, CHR 0x08], [CHR 0xc4, CHR 0xcf, CHR 0xf2, CHR 0xb1],
    [CHR 0xc8, CHR 0xbd, CHR 0xe2, CHR 0x27], [CHR 0x7e, CHR 0xeb, CHR 0x17, CHR 0x11],
    [CHR 0xca, CHR 0xcc, CHR 0xd7, CHR 0xa6], [CHR 0xe0, CHR 0xd2, CHR 0x68, CHR 0xa1],
    [CHR 0x34, CHR 0x34, CHR 0xc1, CHR 0xd2], [CHR 0xe6, CHR 0xe0, CHR 0xbb, CHR 0x16],
    [CHR 0x6f, CHR 0xa4, CHR 0x90, CHR 0xcd], [CHR 0xab, CHR 0xd8, CHR 0x02, CHR 0x24],
    [CHR 0xd7, CHR 0x80, CHR 0x0e, CHR 0x18], [CHR 0x0b, CHR 0xb3, CHR 0x09, CHR 0xa2],
    [CHR 0xf7, CHR 0xa6, CHR 0x32, CHR 0xf5], [CHR 0x5e, CHR 0x42, CHR 0x45, CHR 0xeb],
    [CHR 0x7b, CHR 0xe3, CHR 0x45, CHR 0xc8], [CHR 0x56, CHR 0x9d, CHR 0x14, CHR 0x29],
    [CHR 0xa5, CHR 0x52, CHR 0x3e, CHR 0xe5], [CHR 0xd5, CHR 0xc3, CHR 0x7b, CHR 0xed]]"
  by (simp only: error_signatures_def list.map
      selector_ZeroShares selector_RequestNotExecuted selector_RequestAlreadyClaimed
      selector_UnauthorizedClaimer_address_address selector_InchSwapInvailidTokens selector_InchSwapAmountExceedsBalance_uint256_uint256
      selector_InchInvalidReceiver selector_InchInvalidAmount_uint256_uint256 selector_IncosistentParamsLength
      selector_CallerNotFactory selector_CallerNotStrategy selector_CallerNotKeeper
      selector_InvalidMarket selector_InvalidInitializationAssets selector_CallbackNotAllowed
      selector_ZeroAddress selector_ArrayLengthMissmatch selector_AlreadyPending
      selector_InvalidFeedPrice_address_int256 selector_PriceFeedNotUpdated_address_uint256_uint256 selector_PriceFeedNotConfigured
      selector_EmptyPriceFeedMultiplier_address selector_InsufficientExecutionFee_uint256_uint256 selector_OracleInvalidPrice
      selector_InsufficientIdleBalanceForUtilize_uint256_uint256 selector_InsufficientProdcutBalanceForDeutilize_uint256_uint256 selector_UnsupportedSwapType
      selector_UnAuthorizedForwarder_address selector_NotPositivePnl selector_ActiveRequestIsNotClosed_bytes32
      selector_StatusNotIdle selector_ZeroPendingUtilization selector_ZeroAmountUtilization
      selector_CallerNotPositionManager selector_CallerNotAgent selector_InvalidRequestId_bytes32_bytes32
      selector_InvalidCallback selector_InvalidActiveRequestType selector_InsufficientCollateralBalance_uint256_uint256
      selector_NoActiveRequests selector_CallerNotOperator selector_InvalidStrategyStatus_uint8)

lemma hex_value_digit: "n < 16 \<Longrightarrow> hex_value (hexdigits ! n) = n"
  by (auto simp: hex_value_def hexdigits_def less_Suc_eq numeral_eq_Suc)

lemma hex_value_hex_byte: "map hex_value (hex_byte b) = [of_char b div 16, of_char b mod 16]"
proof -
  have "of_char b < (256 :: nat)" by simp
  then have "of_char b div 16 < (16 :: nat)" by (simp add: less_mult_imp_div_less)
  then show ?thesis by (simp add: hex_byte_def hex_value_digit)
qed

lemma hex_value_hex:
  "map hex_value (hex bs) = concat (map (\<lambda>b. [of_char b div 16, of_char b mod 16]) bs)"
  by (induction bs) (simp_all add: hex_def hex_value_hex_byte)

section \<open>Encoding the text\<close>

text \<open>
  Every string without a surrogate is encoded; a surrogate is refused; an ASCII string,
  as every entry of the registry is, is its own encoding.
\<close>

lemma encode_codepoint_ok:
  "c < 0x110000 \<Longrightarrow> \<not> is_surrogate c \<Longrightarrow> \<exists>bs. encode_codepoint c = Inr bs"
  by (simp add: encode_codepoint_def)

lemma encode_utf8_encodable: "encodable s \<Longrightarrow> \<exists>bs. encode_utf8 s = Inr bs"
proof (induction s)
  case Nil
  then show ?case by simp
next
  case (Cons c cs)
  then have "c < 0x110000" and "\<not> is_surrogate c" and "encodable cs"
    by (simp_all add: encodable_def)
  with Cons.IH encode_codepoint_ok [of c] show ?case by auto
qed

lemma selector_of_text_encoded:
  "encode_utf8 s = Inr bs \<Longrightarrow> selector_of_text s = Inr (take 4 (keccak256 bs))"
  by (simp add: selector_of_text_def keccak_text_def keccak_def)

lemma selector_of_text_surrogate: "selector_of_text [0xD800] = Inl UnicodeEncodeError"
  by (simp add: selector_of_text_def keccak_text_def encode_codepoint_def is_surrogate_def)

lemma encode_utf8_ascii:
  "list_all (\<lambda>c. of_char c < (128::nat)) s \<Longrightarrow> encode_utf8 (map of_char s) = Inr s"
  by (induction s) (simp_all add: encode_codepoint_def)

lemma error_signatures_ascii:
  "list_all (list_all (\<lambda>c. of_char c < (128::nat))) error_signatures"
  by (simp add: error_signatures_def)

section \<open>The selector\<close>

text \<open>
  C1. For every declaration \<open>d\<close> the bytes \<^verbatim>\<open>hash_bytes[:4]\<close> of the script are the first
  four bytes of the Keccak-256 hash of the bytes of \<open>d\<close>, in the order of the hash:
  nothing is reversed or hashed again. For \<^verbatim>\<open>ZeroAddress()\<close> they are
  \<open>d9 2e 23 3d\<close>.
\<close>

theorem derive_selector_is_hash_prefix:
  "derive_selector d = spec_derive_selector d \<and>
   derive_selector d = take 4 (keccak256 d) \<and>
   derive_selector ''ZeroAddress()'' = [CHR 0xd9, CHR 0x2e, CHR 0x23, CHR 0x3d]"
proof (intro conjI)
  show "derive_selector d = spec_derive_selector d" by (rule spec_derive_selector_eq)
  show "derive_selector d = take 4 (keccak256 d)"
    by (simp add: derive_selector_def hash_bytes_def keccak_def)
  show "derive_selector ''ZeroAddress()'' = [CHR 0xd9, CHR 0x2e, CHR 0x23, CHR 0x3d]"
    by (rule selector_ZeroAddress)
qed

text \<open>
  C3. Every byte sequence has a selector: for every string \<open>s\<close> that can be encoded as
  bytes the two lines \<^verbatim>\<open>keccak(text=s)\<close> and \<^verbatim>\<open>hash_bytes[:4]\<close> raise nothing and return
  the first four bytes of the hash of these bytes, and for every byte sequence \<open>d\<close> the
  selector is these four bytes. Whatever the length of \<open>d\<close>, the padded message is a whole,
  positive number of blocks and the sponge absorbs it into a well-formed state. The empty
  string is encoded as the empty byte sequence and hashed as such: its selector is
  \<open>c5 d2 46 01\<close>.
\<close>

theorem derive_selector_total:
  "(encodable s \<longrightarrow>
      (\<exists>bs. encode_utf8 s = Inr bs \<and>
            selector_of_text s = Inr (take 4 (keccak256 bs)) \<and>
            selector_of_text s = Inr (derive_selector bs) \<and>
            length (take 4 (keccak256 bs)) = 4)) \<and>
   encode_utf8 [] = Inr [] \<and>
   selector_of_text [] = Inr (take 4 (keccak256 [])) \<and>
   selector_of_text [] = Inr [CHR 0xc5, CHR 0xd2, CHR 0x46, CHR 0x01] \<and>
   derive_selector d = take 4 (keccak256 d) \<and>
   length (derive_selector d) = 4 \<and>
   length (pad d) = rate * (length d div rate + 1) \<and>
   wf_state (absorb (pad d)) \<and>
   pad [] = CHR 0x01 # replicate 134 (CHR 0x00) @ [CHR 0x80]"
proof (intro conjI impI)
  have sel: "derive_selector x = take 4 (keccak256 x)" for x
    by (simp add: derive_selector_def hash_bytes_def keccak_def)
  assume "encodable s"
  then obtain bs where bs: "encode_utf8 s = Inr bs"
    using encode_utf8_encodable by blast
  then have "selector_of_text s = Inr (take 4 (keccak256 bs))"
    by (rule selector_of_text_encoded)
  with bs show "\<exists>bs. encode_utf8 s = Inr bs \<and>
            selector_of_text s = Inr (take 4 (keccak256 bs)) \<and>
            selector_of_text s = Inr (derive_selector bs) \<and>
            length (take 4 (keccak256 bs)) = 4"
    by (simp add: sel length_keccak256)
next
  show "encode_utf8 [] = Inr []" by simp
  have empty: "selector_of_text [] = Inr (take 4 (keccak256 []))"
    by (rule selector_of_text_encoded) simp
  then show "selector_of_text [] = Inr (take 4 (keccak256 []))" .
  have "take 4 (keccak256 []) = derive_selector []"
    by (simp add: derive_selector_def hash_bytes_def keccak_def)
  with empty show "selector_of_text [] = Inr [CHR 0xc5, CHR 0xd2, CHR 0x46, CHR 0x01]"
    by (simp only: selector_empty)
  show "derive_selector d = take 4 (keccak256 d)"
    by (simp add: derive_selector_def hash_bytes_def keccak_def)
  show "length (derive_selector d) = 4" by (rule length_derive_selector)
  show "length (pad d) = rate * (length d div rate + 1)" by (rule length_pad)
  show "wf_state (absorb (pad d))" by (rule wf_absorb) (simp add: length_pad)
  show "pad [] = CHR 0x01 # replicate 134 (CHR 0x00) @ [CHR 0x80]"
    by (simp add: pad_def padding_def rate_def)
qed

theorem derive_selector_total_witness:
  "encodable [0x41, 0xE9, 0x20AC, 0x1F600] \<and>
   (\<exists>bs. encode_utf8 [0x41, 0xE9, 0x20AC, 0x1F600] = Inr bs \<and>
         selector_of_text [0x41, 0xE9, 0x20AC, 0x1F600] = Inr (take 4 (keccak256 bs)))"
proof -
  have enc: "encodable [0x41, 0xE9, 0x20AC, 0x1F600]"
    by (simp add: encodable_def is_surrogate_def)
  with derive_selector_total [of "[0x41, 0xE9, 0x20AC, 0x1F600]"]
  have "\<exists>bs. encode_utf8 [0x41, 0xE9, 0x20AC, 0x1F600] = Inr bs \<and>
         selector_of_text [0x41, 0xE9, 0x20AC, 0x1F600] = Inr (take 4 (keccak256 bs))"
    by blast
  with enc show ?thesis by (rule conjI)
qed

text \<open>
  C4. Every line printed is the declaration, then \<open>: 0x\<close>, then the selector in
  hexadecimal: eight characters of \<open>0123456789abcdef\<close>, two for each of the four bytes in
  the order of the hash, the high digit first. The lines of the registry come in the order
  of the registry. The line of \<^verbatim>\<open>ZeroAddress()\<close> is \<^verbatim>\<open>ZeroAddress(): 0xd92e233d\<close>.
\<close>

theorem report_line_format:
  "report_all S = map (\<lambda>d. d @ '': 0x'' @ selector d) S \<and>
   main = map (\<lambda>d. d @ '': 0x'' @ selector d) error_signatures \<and>
   selector d = hex (derive_selector d) \<and>
   length (selector d) = 8 \<and>
   set (selector d) \<subseteq> set ''0123456789abcdef'' \<and>
   map hex_value (selector d) =
     concat (map (\<lambda>b. [of_char b div 16, of_char b mod 16]) (derive_selector d)) \<and>
   print_line ''ZeroAddress()'' = ''ZeroAddress(): 0xd92e233d''"
proof (intro conjI)
  have lines: "print_line = (\<lambda>d. d @ '': 0x'' @ selector d)"
    by (rule ext) (simp add: print_line_def)
  show "report_all S = map (\<lambda>d. d @ '': 0x'' @ selector d) S"
    by (simp add: report_all_map lines)
  show "main = map (\<lambda>d. d @ '': 0x'' @ selector d) error_signatures"
    by (simp add: main_def report_all_map lines)
  show sel: "selector d = hex (derive_selector d)"
    by (simp add: selector_def derive_selector_def)
  show "length (selector d) = 8"
    by (simp add: sel length_hex length_derive_selector)
  show "set (selector d) \<subseteq> set ''0123456789abcdef''"
    using set_hex [of "derive_selector d"] by (simp only: sel hexdigits_def)
  show "map hex_value (selector d) =
     concat (map (\<lambda>b. [of_char b div 16, of_char b mod 16]) (derive_selector d))"
    by (simp only: sel hex_value_hex)
  have "selector ''ZeroAddress()'' = hex [CHR 0xd9, CHR 0x2e, CHR 0x23, CHR 0x3d]"
    by (simp only: selector_def derive_selector_def [symmetric] selector_ZeroAddress)
  also have "\<dots> = ''d92e233d''"
    by (simp add: hex_def hex_byte_def hexdigits_def)
  finally show "print_line ''ZeroAddress()'' = ''ZeroAddress(): 0xd92e233d''"
    by (simp add: print_line_def)
qed

text \<open>
  C7, as amended. The registry has 42 entries, and their selectors are pairwise distinct:
  no two positions of the list have the same selector.
\<close>

theorem registry_selectors_distinct:
  "length error_signatures = 42 \<and> distinct (map derive_selector error_signatures)"
proof
  show "length error_signatures = 42" by (rule length_error_signatures)
  show "distinct (map derive_selector error_signatures)"
    by (simp add: registry_selectors)
qed

text \<open>C7, as stated, counts 43 entries: the registry has 42.\<close>

theorem registry_size_counterexample:
  "\<not> (length error_signatures = 43 \<and> distinct (map derive_selector error_signatures))"
  by (simp add: length_error_signatures)

end
